theory Spec2Isabelle
  imports Main "HOL-Library.Sublist"
begin

section \<open>Python values\<close>

text \<open>
  The program handles three kinds of data: text (\<open>str\<close>), the values that
  \<open>response.json()\<close> and \<open>json.loads\<close> build, and \<open>None\<close>.

  A \<open>str\<close> is modelled by the bytes of its UTF-8 encoding, as a \<open>string\<close>: the
  ASCII characters the program tests for (quotes, underscores, backticks, white space)
  are single bytes there, and a search for an ASCII pattern finds the same places in
  the bytes as in the code points.

  Every float of a run is read from a JSON number, so a finite float is carried as a
  decimal it was read from: \<open>Dec neg m e\<close> is the double nearest to
  \<open>(-1)^neg * m * 10^e\<close> (two decimals can give the same double; the program never
  compares floats).  \<open>Infinity False\<close>, \<open>Infinity True\<close> (negative) and \<open>NaN\<close> are
  the floats that are not finite: Python's decoder reads them from the three constants
  it accepts beyond the JSON grammar, and the infinite ones also from a decimal beyond
  the range of a double.
\<close>

datatype pyfloat = Dec bool nat int | Infinity bool | NaN

datatype json =
    JNull
  | JBool bool
  | JInt int
  | JFloat pyfloat
  | JStr string
  | JArr "json list"
  | JObj "(string \<times> json) list"

text \<open>
  \<open>JNull\<close> is Python's \<open>None\<close>: the decoder maps \<open>null\<close> to it, and the functions
  below return it for "absent". A \<open>dict\<close> keeps its keys in insertion order, so
  \<open>JObj\<close> holds an association list.
\<close>

text \<open>
  A double is zero exactly when the decimal rounds to zero: conversion rounds to
  nearest, ties to even, and the smallest positive double is \<open>2^-1074\<close>, so the
  decimals that give \<open>0.0\<close> are those of magnitude at most \<open>2^-1075\<close>.
\<close>

definition float_is_zero :: "pyfloat \<Rightarrow> bool" where
  "float_is_zero f =
     (case f of
        Dec _ m e \<Rightarrow> m = 0 \<or> (e < 0 \<and> int m * 2 ^ 1075 \<le> 10 ^ nat (- e))
      | Infinity _ \<Rightarrow> False
      | NaN \<Rightarrow> False)"

text \<open>Truth value testing (\<open>if x\<close>, \<open>not x\<close>, \<open>x and y\<close>).\<close>

fun truthy :: "json \<Rightarrow> bool" where
  "truthy JNull = False"
| "truthy (JBool b) = b"
| "truthy (JInt i) = (i \<noteq> 0)"
| "truthy (JFloat f) = (\<not> float_is_zero f)"
| "truthy (JStr s) = (s \<noteq> [])"
| "truthy (JArr xs) = (xs \<noteq> [])"
| "truthy (JObj kvs) = (kvs \<noteq> [])"

text \<open>The exceptions a run can raise.  The first three are subclasses of
  \<open>requests.exceptions.RequestException\<close>: a transport failure, the \<open>HTTPError\<close> of
  \<open>raise_for_status\<close>, and the \<open>JSONDecodeError\<close> of \<open>response.json()\<close>.
  \<open>ServiceError\<close> stands for whatever the generative-text library raises.\<close>

datatype py_exception =
    ConnectionError
  | HTTPError nat
  | BodyDecodeError
  | KeyError
  | TypeError
  | AttributeError
  | IndexError
  | ValueError
  | JSONDecodeError
  | RecursionError
  | UnboundLocalError
  | ServiceError

fun is_RequestException :: "py_exception \<Rightarrow> bool" where
  "is_RequestException ConnectionError = True"
| "is_RequestException (HTTPError _) = True"
| "is_RequestException BodyDecodeError = True"
| "is_RequestException _ = False"

subsection \<open>UTF-8\<close>

text \<open>A code point in UTF-8 (a lone surrogate, which a \<open>str\<close> can hold, in the same
  three-byte form), and the code points of UTF-8 text.\<close>

definition utf8_encode :: "nat \<Rightarrow> string" where
  "utf8_encode cp =
     (if cp < 0x80 then [char_of cp]
      else if cp < 0x800 then [char_of (0xC0 + cp div 64), char_of (0x80 + cp mod 64)]
      else if cp < 0x10000 then
        [char_of (0xE0 + cp div 4096), char_of (0x80 + cp div 64 mod 64), char_of (0x80 + cp mod 64)]
      else
        [char_of (0xF0 + cp div 262144), char_of (0x80 + cp div 4096 mod 64),
         char_of (0x80 + cp div 64 mod 64), char_of (0x80 + cp mod 64)])"

fun utf8_decode :: "string \<Rightarrow> nat list" where
  "utf8_decode [] = []"
| "utf8_decode (c # cs) =
     (let b = (of_char c :: nat);
          k = (if b < 0xC0 then 0 else if b < 0xE0 then 1 else if b < 0xF0 then 2 else 3 :: nat);
          lead = (if b < 0xC0 then b else if b < 0xE0 then b mod 32 else if b < 0xF0 then b mod 16 else b mod 8)
      in foldl (\<lambda>a x. a * 64 + (of_char x :: nat) mod 64) lead (take k cs) # utf8_decode (drop k cs))"

text \<open>The first code point of UTF-8 text: the lead byte says how many bytes it has.\<close>

definition utf8_head :: "string \<Rightarrow> string" where
  "utf8_head s =
     (case s of
        [] \<Rightarrow> []
      | c # _ \<Rightarrow>
          (let b = (of_char c :: nat) in
           take (if b < 0xC0 then 1 else if b < 0xE0 then 2 else if b < 0xF0 then 3 else 4) s))"

subsection \<open>The interpreter\<close>

text \<open>
  What the program takes from the interpreter that runs it, and not from its own text
  or from the values it handles.  \<open>str.title\<close> reads four tables of the Unicode
  Character Database, which differ between versions of Python: which code points are
  cased, which are case-ignorable, and the title-case and lower-case mappings (one to
  three code points each).  The JSON decoder stops with \<open>RecursionError\<close> when the
  nesting of arrays and objects exceeds what the interpreter's stack has left
  (\<open>recursion_limit\<close>: the number of levels it can enter), and \<open>int\<close> refuses a
  literal of more than \<open>max_str_digits\<close> digits (4300 by default since Python 3.11;
  \<open>0\<close>: no limit).  Every definition and theorem below holds for whatever these are.
\<close>

record interpreter =
  cased :: "nat \<Rightarrow> bool"
  case_ignorable :: "nat \<Rightarrow> bool"
  title_of :: "nat \<Rightarrow> nat list"
  lower_of :: "nat \<Rightarrow> nat list"
  recursion_limit :: nat
  max_str_digits :: nat

subsection \<open>Dictionaries, subscripts\<close>

text \<open>\<open>d[k] = v\<close> on an insertion-ordered dictionary: an existing key keeps its place.\<close>

fun dict_set :: "(string \<times> json) list \<Rightarrow> string \<Rightarrow> json \<Rightarrow> (string \<times> json) list" where
  "dict_set [] k v = [(k, v)]"
| "dict_set ((k', v') # kvs) k v =
     (if k' = k then (k', v) # kvs else (k', v') # dict_set kvs k v)"

text \<open>\<open>x.get(k, default)\<close>: only a dictionary has the method.\<close>

fun py_get :: "json \<Rightarrow> string \<Rightarrow> json \<Rightarrow> py_exception + json" where
  "py_get (JObj kvs) k d = Inr (case map_of kvs k of Some v \<Rightarrow> v | None \<Rightarrow> d)"
| "py_get _ k d = Inl AttributeError"

text \<open>\<open>x[k]\<close> with a \<open>str\<close> key.\<close>

fun py_getitem :: "json \<Rightarrow> string \<Rightarrow> py_exception + json" where
  "py_getitem (JObj kvs) k = (case map_of kvs k of Some v \<Rightarrow> Inr v | None \<Rightarrow> Inl KeyError)"
| "py_getitem _ k = Inl TypeError"

text \<open>\<open>x[0]\<close>.  The keys of a decoded dictionary are all \<open>str\<close>, so \<open>0\<close> is never one.\<close>

fun py_getitem0 :: "json \<Rightarrow> py_exception + json" where
  "py_getitem0 (JArr []) = Inl IndexError"
| "py_getitem0 (JArr (x # xs)) = Inr x"
| "py_getitem0 (JStr []) = Inl IndexError"
| "py_getitem0 (JStr s) = Inr (JStr (utf8_head s))"
| "py_getitem0 (JObj kvs) = Inl KeyError"
| "py_getitem0 _ = Inl TypeError"

section \<open>String methods\<close>

subsection \<open>\<open>str.replace\<close>\<close>

text \<open>
  \<open>s.replace(old, new)\<close> scans from the left and replaces every occurrence of \<open>old\<close>
  that does not overlap an earlier one.  Both calls of the program pass a non-empty ASCII
  pattern.  (For the empty pattern Python puts \<open>new\<close> around every code point; the
  second branch does so around every byte.)
\<close>

fun replace_scan :: "string \<Rightarrow> string \<Rightarrow> string \<Rightarrow> string" where
  "replace_scan old new [] = []"
| "replace_scan old new (c # cs) =
     (if prefix old (c # cs) then new @ replace_scan old new (drop (length old - 1) cs)
      else c # replace_scan old new cs)"

definition py_replace :: "string \<Rightarrow> string \<Rightarrow> string \<Rightarrow> string" where
  "py_replace s old new =
     (if old = [] then new @ concat (map (\<lambda>c. c # new) s) else replace_scan old new s)"

subsection \<open>\<open>str.strip\<close>\<close>

text \<open>
  \<open>s.strip()\<close> removes the code points with \<open>str.isspace\<close> from both ends:
  U+0009..U+000D, U+001C..U+0020, U+0085, U+00A0, U+1680, U+2000..U+200A, U+2028,
  U+2029, U+202F, U+205F and U+3000, here in UTF-8.
\<close>

definition py_whitespace :: "string list" where
  "py_whitespace =
     map (\<lambda>b. [char_of (b :: nat)]) [0x09, 0x0A, 0x0B, 0x0C, 0x0D, 0x1C, 0x1D, 0x1E, 0x1F, 0x20]
     @ map (map (char_of :: nat \<Rightarrow> char))
        ([[0xC2, 0x85], [0xC2, 0xA0], [0xE1, 0x9A, 0x80]]
         @ map (\<lambda>b. [0xE2, 0x80, b]) [0x80, 0x81, 0x82, 0x83, 0x84, 0x85, 0x86, 0x87, 0x88, 0x89, 0x8A]
         @ [[0xE2, 0x80, 0xA8], [0xE2, 0x80, 0xA9], [0xE2, 0x80, 0xAF], [0xE2, 0x81, 0x9F],
            [0xE3, 0x80, 0x80]])"

fun strip_prefixes :: "string list \<Rightarrow> string \<Rightarrow> string" where
  "strip_prefixes ps [] = []"
| "strip_prefixes ps (c # cs) =
     (case find (\<lambda>p. p \<noteq> [] \<and> prefix p (c # cs)) ps of
        None \<Rightarrow> c # cs
      | Some p \<Rightarrow> strip_prefixes ps (drop (length p - 1) cs))"

definition py_lstrip :: "string \<Rightarrow> string" where
  "py_lstrip s = strip_prefixes py_whitespace s"

definition py_rstrip :: "string \<Rightarrow> string" where
  "py_rstrip s = rev (strip_prefixes (map rev py_whitespace) (rev s))"

definition py_strip :: "string \<Rightarrow> string" where
  "py_strip s = py_rstrip (py_lstrip s)"

subsection \<open>\<open>str.title\<close>\<close>

text \<open>
  \<open>s.title()\<close>, following \<open>do_title\<close> of CPython: a code point that comes next to
  a cased one is replaced by its lower-case mapping, any other by its title-case
  mapping.  The lower-case mapping of the capital sigma (U+03A3) depends on its
  context: it is the final form U+03C2 when the nearest code point to its left that is
  not case-ignorable is cased and the nearest one to its right is not, and U+03C3
  otherwise.
\<close>

definition final_sigma :: "interpreter \<Rightarrow> nat list \<Rightarrow> nat list \<Rightarrow> bool" where
  "final_sigma py seen ahead =
     (let b = dropWhile (case_ignorable py) (rev seen);
          a = dropWhile (case_ignorable py) ahead
      in b \<noteq> [] \<and> cased py (hd b) \<and> (a = [] \<or> \<not> cased py (hd a)))"

definition lower_at :: "interpreter \<Rightarrow> nat list \<Rightarrow> nat \<Rightarrow> nat list \<Rightarrow> nat list" where
  "lower_at py seen c ahead =
     (if c = 0x3A3 then [if final_sigma py seen ahead then 0x3C2 else 0x3C3]
      else lower_of py c)"

fun do_title :: "interpreter \<Rightarrow> bool \<Rightarrow> nat list \<Rightarrow> nat list \<Rightarrow> nat list" where
  "do_title py previous_is_cased seen [] = []"
| "do_title py previous_is_cased seen (c # cs) =
     (if previous_is_cased then lower_at py seen c cs else title_of py c)
     @ do_title py (cased py c) (seen @ [c]) cs"

definition py_title :: "interpreter \<Rightarrow> string \<Rightarrow> string" where
  "py_title py s = concat (map utf8_encode (do_title py False [] (utf8_decode s)))"

section \<open>The JSON decoder\<close>

text \<open>
  \<open>json.loads\<close> with its defaults, after the decoder of Python's standard library:
  white space is space, tab, line feed and carriage return; strings are decoded in
  strict mode (no raw control character); besides the JSON grammar the constants
  \<open>NaN\<close>, \<open>Infinity\<close> and \<open>-Infinity\<close> are accepted; a repeated key keeps its first
  place and its last value.  A text that is not of this form raises
  \<open>JSONDecodeError\<close>; the two limits of the interpreter raise \<open>RecursionError\<close> and
  \<open>ValueError\<close>.
\<close>

definition is_json_ws :: "char \<Rightarrow> bool" where
  "is_json_ws c = (c = CHR '' '' \<or> c = CHR 0x09 \<or> c = CHR 0x0A \<or> c = CHR 0x0D)"

definition skip_ws :: "string \<Rightarrow> string" where
  "skip_ws s = dropWhile is_json_ws s"

definition is_digit :: "char \<Rightarrow> bool" where
  "is_digit c = (48 \<le> (of_char c :: nat) \<and> (of_char c :: nat) \<le> 57)"

definition digits_val :: "string \<Rightarrow> nat" where
  "digits_val ds = foldl (\<lambda>a c. 10 * a + ((of_char c :: nat) - 48)) 0 ds"

subsection \<open>Strings\<close>

definition hex_val :: "char \<Rightarrow> nat option" where
  "hex_val c =
     (let n = (of_char c :: nat) in
      if 48 \<le> n \<and> n \<le> 57 then Some (n - 48)
      else if 97 \<le> n \<and> n \<le> 102 then Some (n - 87)
      else if 65 \<le> n \<and> n \<le> 70 then Some (n - 55)
      else None)"

text \<open>The four hexadecimal digits of a \<open>\uXXXX\<close> escape.\<close>

definition hex4 :: "string \<Rightarrow> nat option" where
  "hex4 s =
     (case map hex_val s of
        [Some a, Some b, Some c, Some d] \<Rightarrow> Some (((a * 16 + b) * 16 + c) * 16 + d)
      | _ \<Rightarrow> None)"

definition simple_escape :: "char \<Rightarrow> char option" where
  "simple_escape e =
     (if e = CHR 0x22 \<or> e = CHR 0x5C \<or> e = CHR ''/'' then Some e
      else if e = CHR ''b'' then Some (CHR 0x08)
      else if e = CHR ''f'' then Some (CHR 0x0C)
      else if e = CHR ''n'' then Some (CHR 0x0A)
      else if e = CHR ''r'' then Some (CHR 0x0D)
      else if e = CHR ''t'' then Some (CHR 0x09)
      else None)"

text \<open>
  \<open>scanstring\<close>, entered after the opening quote: the decoded text and what follows
  the closing quote.  The text is read as a sequence of units, a raw character or the
  number of a \<open>\uXXXX\<close> escape; a high surrogate escape directly followed by a low
  surrogate escape then makes one code point.
\<close>

datatype code_unit = Raw char | Esc nat

definition push :: "code_unit \<Rightarrow> (code_unit list \<times> string) option \<Rightarrow> (code_unit list \<times> string) option" where
  "push u res = map_option (\<lambda>(us, rest). (u # us, rest)) res"

fun scan_units :: "string \<Rightarrow> (code_unit list \<times> string) option" where
  "scan_units [] = None"
| "scan_units (c # cs) =
     (if c = CHR 0x22 then Some ([], cs)
      else if c = CHR 0x5C then
        (case cs of
           [] \<Rightarrow> None
         | e # r \<Rightarrow>
             if e = CHR ''u'' then
               (case hex4 (take 4 r) of
                  None \<Rightarrow> None
                | Some u \<Rightarrow> push (Esc u) (scan_units (drop 4 r)))
             else
               (case simple_escape e of
                  None \<Rightarrow> None
                | Some ch \<Rightarrow> push (Raw ch) (scan_units r)))
      else if (of_char c :: nat) < 0x20 then None
      else push (Raw c) (scan_units cs))"

fun decode_units :: "code_unit list \<Rightarrow> string" where
  "decode_units [] = []"
| "decode_units (Raw c # us) = c # decode_units us"
| "decode_units (Esc hi # Esc lo # us) =
     (if 0xD800 \<le> hi \<and> hi \<le> 0xDBFF \<and> 0xDC00 \<le> lo \<and> lo \<le> 0xDFFF
      then utf8_encode (0x10000 + (hi - 0xD800) * 1024 + (lo - 0xDC00)) @ decode_units us
      else utf8_encode hi @ decode_units (Esc lo # us))"
| "decode_units (Esc u # us) = utf8_encode u @ decode_units us"

definition scanstring :: "string \<Rightarrow> (string \<times> string) option" where
  "scanstring s = map_option (\<lambda>(us, rest). (decode_units us, rest)) (scan_units s)"

subsection \<open>Numbers\<close>

text \<open>
  The longest prefix of the form \<open>-?(0|[1-9][0-9]*)(\.[0-9]+)?([eE][-+]?[0-9]+)?\<close>; an
  \<open>int\<close> when it has neither fraction nor exponent, a \<open>float\<close> otherwise.
\<close>

definition scan_fraction :: "string \<Rightarrow> string \<times> string" where
  "scan_fraction s =
     (case s of
        p # d # t \<Rightarrow>
          if p = CHR ''.'' \<and> is_digit d then (d # takeWhile is_digit t, dropWhile is_digit t)
          else ([], s)
      | _ \<Rightarrow> ([], s))"

definition scan_exponent :: "string \<Rightarrow> int option \<times> string" where
  "scan_exponent s =
     (case s of
        [] \<Rightarrow> (None, s)
      | e # t \<Rightarrow>
          if e = CHR ''e'' \<or> e = CHR ''E'' then
            (let minus = (take 1 t = [CHR ''-'']);
                 t' = (if take 1 t = [CHR ''-''] \<or> take 1 t = [CHR ''+''] then drop 1 t else t);
                 ds = takeWhile is_digit t'
             in if ds = [] then (None, s)
                else (Some (if minus then - int (digits_val ds) else int (digits_val ds)),
                      dropWhile is_digit t'))
          else (None, s))"

text \<open>
  The float of a decimal \<open>m * 10^e\<close> is infinite when the decimal rounds beyond the
  largest double, \<open>2^1024 - 2^971\<close>: from \<open>2^1024 - 2^970\<close> on.
\<close>

definition overflows :: "nat \<Rightarrow> int \<Rightarrow> bool" where
  "overflows m e =
     (if 0 \<le> e then 2 ^ 1024 - 2 ^ 970 \<le> int m * 10 ^ nat e
      else (2 ^ 1024 - 2 ^ 970) * 10 ^ nat (- e) \<le> int m)"

definition float_of_decimal :: "bool \<Rightarrow> nat \<Rightarrow> int \<Rightarrow> pyfloat" where
  "float_of_decimal neg m e = (if overflows m e then Infinity neg else Dec neg m e)"

definition number_value :: "interpreter \<Rightarrow> bool \<Rightarrow> string \<Rightarrow> string \<Rightarrow> int option \<Rightarrow> py_exception + json" where
  "number_value py neg ds frac ex =
     (if frac = [] \<and> ex = None then
        (if max_str_digits py \<noteq> 0 \<and> max_str_digits py < length ds then Inl ValueError
         else Inr (JInt (if neg then - int (digits_val ds) else int (digits_val ds))))
      else Inr (JFloat (float_of_decimal neg (digits_val (ds @ frac))
                          ((case ex of None \<Rightarrow> 0 | Some x \<Rightarrow> x) - int (length frac)))))"

definition scan_number :: "interpreter \<Rightarrow> string \<Rightarrow> py_exception + json \<times> string" where
  "scan_number py s =
     (let neg = (take 1 s = [CHR ''-'']);
          s1 = (if neg then drop 1 s else s)
      in case s1 of
           [] \<Rightarrow> Inl JSONDecodeError
         | c # r \<Rightarrow>
             if is_digit c then
               (let ds = (if c = CHR ''0'' then [c] else c # takeWhile is_digit r);
                    r1 = (if c = CHR ''0'' then r else dropWhile is_digit r);
                    (frac, r2) = scan_fraction r1;
                    (ex, r3) = scan_exponent r2
                in case number_value py neg ds frac ex of
                     Inl e \<Rightarrow> Inl e
                   | Inr v \<Rightarrow> Inr (v, r3))
             else Inl JSONDecodeError)"

subsection \<open>Values\<close>

text \<open>
  The decoder's recursion (\<open>scan_once\<close>, the array loop and the object loop).
  \<open>depth\<close> is the number of levels of nesting that the interpreter can still enter.
  The argument after it only makes the recursion of the definition well-founded: it
  decreases with every call, and \<open>json_loads\<close> starts from a number that suffices
  for every text that decodes (\<open>parse_value_enough\<close> below).
\<close>

fun parse_value :: "interpreter \<Rightarrow> nat \<Rightarrow> nat \<Rightarrow> string \<Rightarrow> py_exception + json \<times> string"
  and parse_elements :: "interpreter \<Rightarrow> nat \<Rightarrow> nat \<Rightarrow> json list \<Rightarrow> string \<Rightarrow> py_exception + json \<times> string"
  and parse_members :: "interpreter \<Rightarrow> nat \<Rightarrow> nat \<Rightarrow> (string \<times> json) list \<Rightarrow> string \<Rightarrow> py_exception + json \<times> string"
where
  "parse_value py depth 0 s = Inl JSONDecodeError"
| "parse_value py depth (Suc n) s =
     (case s of
        [] \<Rightarrow> Inl JSONDecodeError
      | c # r \<Rightarrow>
          if c = CHR 0x22 then
            (case scanstring r of
               None \<Rightarrow> Inl JSONDecodeError
             | Some (str, rest) \<Rightarrow> Inr (JStr str, rest))
          else if c = CHR ''{'' then
            (if depth = 0 then Inl RecursionError
             else if take 1 (skip_ws r) = ''}'' then Inr (JObj [], drop 1 (skip_ws r))
             else parse_members py (depth - 1) n [] (skip_ws r))
          else if c = CHR ''['' then
            (if depth = 0 then Inl RecursionError
             else if take 1 (skip_ws r) = '']'' then Inr (JArr [], drop 1 (skip_ws r))
             else parse_elements py (depth - 1) n [] (skip_ws r))
          else if prefix ''null'' s then Inr (JNull, drop 4 s)
          else if prefix ''true'' s then Inr (JBool True, drop 4 s)
          else if prefix ''false'' s then Inr (JBool False, drop 5 s)
          else if prefix ''NaN'' s then Inr (JFloat NaN, drop 3 s)
          else if prefix ''Infinity'' s then Inr (JFloat (Infinity False), drop 8 s)
          else if prefix ''-Infinity'' s then Inr (JFloat (Infinity True), drop 9 s)
          else scan_number py s)"
| "parse_elements py depth 0 acc s = Inl JSONDecodeError"
| "parse_elements py depth (Suc n) acc s =
     (case parse_value py depth n s of
        Inl e \<Rightarrow> Inl e
      | Inr (v, r) \<Rightarrow>
          if take 1 (skip_ws r) = '']'' then Inr (JArr (acc @ [v]), drop 1 (skip_ws r))
          else if take 1 (skip_ws r) = '',''
          then parse_elements py depth n (acc @ [v]) (skip_ws (drop 1 (skip_ws r)))
          else Inl JSONDecodeError)"
| "parse_members py depth 0 acc s = Inl JSONDecodeError"
| "parse_members py depth (Suc n) acc s =
     (if take 1 s = [CHR 0x22] then
        (case scanstring (drop 1 s) of
           None \<Rightarrow> Inl JSONDecodeError
         | Some (key, r) \<Rightarrow>
             if take 1 (skip_ws r) = '':'' then
               (case parse_value py depth n (skip_ws (drop 1 (skip_ws r))) of
                  Inl e \<Rightarrow> Inl e
                | Inr (v, r') \<Rightarrow>
                    if take 1 (skip_ws r') = ''}''
                    then Inr (JObj (dict_set acc key v), drop 1 (skip_ws r'))
                    else if take 1 (skip_ws r') = '',''
                    then parse_members py depth n (dict_set acc key v) (skip_ws (drop 1 (skip_ws r')))
                    else Inl JSONDecodeError)
             else Inl JSONDecodeError)
      else Inl JSONDecodeError)"

text \<open>\<open>json.loads(s)\<close>: white space, one value, white space, the end of the text.\<close>

definition json_loads :: "interpreter \<Rightarrow> string \<Rightarrow> py_exception + json" where
  "json_loads py s =
     (case parse_value py (recursion_limit py) (2 * length (skip_ws s)) (skip_ws s) of
        Inl e \<Rightarrow> Inl e
      | Inr (v, rest) \<Rightarrow> if skip_ws rest = [] then Inr v else Inl JSONDecodeError)"

section \<open>Effects\<close>

text \<open>
  Text that the program prints or sends is kept as a list of pieces: the literal parts
  of an f-string and the rendering of each interpolated value.  \<open>str\<close> of a \<open>str\<close>,
  of \<open>None\<close>, of a \<open>bool\<close> and of an \<open>int\<close> is written out; the interpreter's
  \<open>str\<close> of a float or a container (\<open>Str\<close>), the JSON encoder's text of a float
  (\<open>Repr\<close>) and the message of an exception (\<open>Exc\<close>) stay symbolic.
\<close>

datatype piece = Lit string | Str json | Repr pyfloat | Exc py_exception

fun nat_str :: "nat \<Rightarrow> string" where
  "nat_str n = (if n < 10 then [char_of (48 + n)] else nat_str (n div 10) @ [char_of (48 + n mod 10)])"

definition int_str :: "int \<Rightarrow> string" where
  "int_str i = (if i < 0 then CHR ''-'' # nat_str (nat (- i)) else nat_str (nat i))"

fun py_str :: "json \<Rightarrow> piece list" where
  "py_str (JStr s) = [Lit s]"
| "py_str JNull = [Lit ''None'']"
| "py_str (JBool b) = [Lit (if b then ''True'' else ''False'')]"
| "py_str (JInt i) = [Lit (int_str i)]"
| "py_str v = [Str v]"

text \<open>
  What a run does to the outside: a line on standard output, a GET request (URL and
  query parameters), the configuration of the generative-text library with a key, and
  the call of the generative model with a prompt.
\<close>

datatype event =
    Print "piece list"
  | HttpGet string "(string \<times> string) list"
  | Configure string
  | GenerateContent "piece list"

text \<open>A computation: the events so far, and an uncaught exception or the result.\<close>

type_synonym 'a io = "event list \<times> (py_exception + 'a)"

definition ret :: "'a \<Rightarrow> 'a io" where
  "ret x = ([], Inr x)"

definition raise :: "py_exception \<Rightarrow> 'a io" where
  "raise e = ([], Inl e)"

definition emit :: "event \<Rightarrow> unit io" where
  "emit ev = ([ev], Inr ())"

definition print :: "piece list \<Rightarrow> unit io" where
  "print ps = emit (Print ps)"

definition bind :: "'a io \<Rightarrow> ('a \<Rightarrow> 'b io) \<Rightarrow> 'b io" where
  "bind m k =
     (case m of
        (t, Inl e) \<Rightarrow> (t, Inl e)
      | (t, Inr x) \<Rightarrow> (case k x of (t', r) \<Rightarrow> (t @ t', r)))"

definition lift :: "py_exception + 'a \<Rightarrow> 'a io" where
  "lift r = ([], r)"

text \<open>\<open>try: m  except ...\<close>: the handler answers \<open>None\<close> for an exception that no
  \<open>except\<close> clause names.\<close>

definition try_except :: "'a io \<Rightarrow> (py_exception \<Rightarrow> 'a io option) \<Rightarrow> 'a io" where
  "try_except m handler =
     (case m of
        (t, Inr x) \<Rightarrow> (t, Inr x)
      | (t, Inl e) \<Rightarrow>
          (case handler e of
             None \<Rightarrow> (t, Inl e)
           | Some (t', r) \<Rightarrow> (t @ t', r)))"

subsection \<open>The remote services\<close>

text \<open>
  Each service is called at most once in a run, so its behaviour in a run is its one
  answer.  \<open>requests.get\<close> raises (\<open>NoResponse\<close>) or returns a response, of which the
  program reads the status code and \<open>.json()\<close> (\<open>None\<close>: the body is not JSON, and
  \<open>.json()\<close> raises the library's \<open>JSONDecodeError\<close>, a \<open>RequestException\<close>).
  \<open>generate_content\<close> raises (\<open>GenerateFails\<close>) or returns a response whose \<open>.text\<close>
  is a \<open>str\<close>, or raises \<open>ValueError\<close> when the response holds no text (\<open>None\<close>).
\<close>

datatype http_reply = NoResponse | Response nat "json option"

datatype gen_reply = GenerateFails | Generated "string option"

definition requests_get :: "string \<Rightarrow> (string \<times> string) list \<Rightarrow> http_reply \<Rightarrow> (nat \<times> json option) io" where
  "requests_get url params reply =
     bind (emit (HttpGet url params)) (\<lambda>_.
       case reply of
         NoResponse \<Rightarrow> raise ConnectionError
       | Response status_code body \<Rightarrow> ret (status_code, body))"

definition raise_for_status :: "nat \<times> json option \<Rightarrow> unit io" where
  "raise_for_status response =
     (if 400 \<le> fst response \<and> fst response < 600 then raise (HTTPError (fst response)) else ret ())"

definition response_json :: "nat \<times> json option \<Rightarrow> json io" where
  "response_json response =
     (case snd response of None \<Rightarrow> raise BodyDecodeError | Some v \<Rightarrow> ret v)"

section \<open>The program\<close>

subsection \<open>\<open>find_nearest_place\<close>\<close>

text \<open>The coordinates are floats that the program only formats; they are carried as
  the text that formatting gives.\<close>

definition find_nearest_place :: "string \<Rightarrow> string \<Rightarrow> string \<Rightarrow> http_reply \<Rightarrow> json io" where
  "find_nearest_place lat lon api_key reply =
     try_except
       (bind (requests_get ''https://maps.googleapis.com/maps/api/place/nearbysearch/json''
                [(''location'', lat @ '','' @ lon),
                 (''rankby'', ''distance''),
                 (''keyword'', ''school,park,hospital,police,fire station,power station,water treatment''),
                 (''key'', api_key)] reply) (\<lambda>response.
        bind (raise_for_status response) (\<lambda>_.
        bind (response_json response) (\<lambda>results.
        bind (lift (py_get results ''status'' JNull)) (\<lambda>status.
        bind (if status = JStr ''OK'' then lift (py_get results ''results'' JNull) else ret status) (\<lambda>found.
          if status = JStr ''OK'' \<and> truthy found then
            bind (lift (py_getitem results ''results'')) (\<lambda>rs. lift (py_getitem0 rs))
          else
            bind (lift (py_get results ''error_message'' (JStr ''No results found.''))) (\<lambda>message.
            bind (print ([Lit ''Error from Places API: ''] @ py_str status @ [Lit '' - ''] @ py_str message)) (\<lambda>_.
            ret JNull))))))))
       (\<lambda>e. if is_RequestException e
             then Some (bind (print [Lit ''An error occurred during the Places API request: '', Exc e]) (\<lambda>_.
                        ret JNull))
             else None)"

subsection \<open>\<open>get_current_humidity\<close>\<close>

definition get_current_humidity :: "string \<Rightarrow> string \<Rightarrow> http_reply \<Rightarrow> json io" where
  "get_current_humidity lat lon reply =
     try_except
       (bind (requests_get (''https://api.open-meteo.com/v1/forecast?latitude='' @ lat
                            @ ''&longitude='' @ lon @ ''&current=relative_humidity_2m'') [] reply) (\<lambda>response.
        bind (raise_for_status response) (\<lambda>_.
        bind (response_json response) (\<lambda>data.
        bind (lift (py_getitem data ''current'')) (\<lambda>current.
        lift (py_getitem current ''relative_humidity_2m''))))))
       (\<lambda>e. if is_RequestException e
             then Some (bind (print [Lit ''An error occurred fetching humidity data: '', Exc e]) (\<lambda>_.
                        ret JNull))
             else if e = KeyError
             then Some (bind (print [Lit ''Could not parse humidity from weather API response.'']) (\<lambda>_.
                        ret JNull))
             else None)"

subsection \<open>\<open>generate_infrastructure_analysis\<close>\<close>

text \<open>The fixed text of the prompt that follows the line of the humidity.\<close>

definition instructions :: string where
  "instructions =
     ''\<newline>''
     @ ''    Based on this information, generate a valid JSON object with the following structure and keys:\<newline>''
     @ ''    {\<newline>''
     @ ''        \"ai_summary\": \"A concise, single-paragraph summary. Explain what this infrastructure is used for and how the specified high or low humidity might impact its operations, materials, or the people who use it.\",\<newline>''
     @ ''        \"resources_used\": [\"A list of 2-3 primary resources this type of infrastructure typically consumes (e.g., electricity, water, fuel).\"],\<newline>''
     @ ''        \"impact_reduction\": [\"A list of 2-3 actionable suggestions for how this type of infrastructure could reduce its environmental impact.\"],\<newline>''
     @ ''        \"is_critical\": \"A boolean value (true or false) indicating if this infrastructure type is generally considered critical for a community's function and safety.\"\<newline>''
     @ ''    }\<newline>''
     @ ''\<newline>''
     @ ''    Provide only the raw JSON object in your response, with no additional text or markdown formatting.\<newline>''
     @ ''    ''"

definition prompt :: "json \<Rightarrow> string \<Rightarrow> json \<Rightarrow> piece list" where
  "prompt place_name place_type humidity =
     [Lit (''\<newline>''
        @ ''    Analyze the following piece of infrastructure based on the provided data.\<newline>''
        @ ''\<newline>''
        @ ''    - Infrastructure Name: \"'')]
     @ py_str place_name
     @ [Lit (''\"\<newline>''
        @ ''    - Infrastructure Type: \"''),
        Lit place_type,
        Lit (''\"\<newline>''
        @ ''    - Current Local Humidity: '')]
     @ py_str humidity
     @ [Lit (''%\<newline>'' @ instructions)]"

text \<open>
  The reply is stripped, then every occurrence of the fence marker followed by \<open>json\<close>
  is removed, then every remaining fence marker (three backticks, character \<open>0x60\<close>).
\<close>

definition fence :: string where
  "fence = [CHR 0x60, CHR 0x60, CHR 0x60]"

definition cleaned_json_text :: "string \<Rightarrow> string" where
  "cleaned_json_text text = py_replace (py_replace (py_strip text) (fence @ ''json'') []) fence []"

text \<open>
  The second \<open>try\<close> binds \<open>response\<close> only when \<open>generate_content\<close> returns, and its
  handler reads \<open>response.text\<close> again: where the call itself raised, the name is
  unbound there, and where \<open>.text\<close> raised, it raises once more.
\<close>

definition generate_infrastructure_analysis ::
    "interpreter \<Rightarrow> json \<Rightarrow> string \<Rightarrow> json \<Rightarrow> string option \<Rightarrow> bool \<Rightarrow> gen_reply \<Rightarrow> json io" where
  "generate_infrastructure_analysis py place_name place_type humidity api_key setup_fails reply =
     (case api_key of
        None \<Rightarrow>
          bind (print [Lit ''Error: GEMINI_API_KEY environment variable not set.'']) (\<lambda>_. ret JNull)
      | Some key \<Rightarrow>
          if key = [] then
            bind (print [Lit ''Error: GEMINI_API_KEY environment variable not set.'']) (\<lambda>_. ret JNull)
          else
            bind (emit (Configure key)) (\<lambda>_.
            if setup_fails then
              bind (print [Lit ''Error configuring Gemini API: '', Exc ServiceError]) (\<lambda>_. ret JNull)
            else
              bind (emit (GenerateContent (prompt place_name place_type humidity))) (\<lambda>_.
              case reply of
                GenerateFails \<Rightarrow>
                  bind (print [Lit ''An error occurred during Gemini API call: '', Exc ServiceError]) (\<lambda>_.
                  raise UnboundLocalError)
              | Generated None \<Rightarrow>
                  bind (print [Lit ''An error occurred during Gemini API call: '', Exc ValueError]) (\<lambda>_.
                  raise ValueError)
              | Generated (Some text) \<Rightarrow>
                  (case json_loads py (cleaned_json_text text) of
                     Inr v \<Rightarrow> ret v
                   | Inl e \<Rightarrow>
                       bind (print [Lit ''An error occurred during Gemini API call: '', Exc e]) (\<lambda>_.
                       bind (print [Lit ''Received text: '', Lit text]) (\<lambda>_.
                       ret JNull))))))"

subsection \<open>\<open>json.dumps(..., indent=4)\<close>\<close>

text \<open>
  The encoder with its defaults and an indent of four: \<open>ensure_ascii\<close> escapes every
  code point outside \<open>0x20..0x7E\<close> (above \<open>0xFFFF\<close> as a surrogate pair), items are
  separated by a comma and a new line, keys from values by a colon and a space, and an
  empty container is written without a line break.  The text of a float read from a
  decimal stays symbolic (\<open>Repr\<close>).
\<close>

definition hex_digit :: "nat \<Rightarrow> char" where
  "hex_digit n = (if n < 10 then char_of (48 + n) else char_of (87 + n))"

definition u_escape :: "nat \<Rightarrow> string" where
  "u_escape n =
     [CHR 0x5C, CHR ''u'', hex_digit (n div 4096 mod 16), hex_digit (n div 256 mod 16),
      hex_digit (n div 16 mod 16), hex_digit (n mod 16)]"

definition escape_code_point :: "nat \<Rightarrow> string" where
  "escape_code_point cp =
     (if cp = 0x22 then [CHR 0x5C, CHR 0x22]
      else if cp = 0x5C then [CHR 0x5C, CHR 0x5C]
      else if cp = 0x0A then [CHR 0x5C, CHR ''n'']
      else if cp = 0x0D then [CHR 0x5C, CHR ''r'']
      else if cp = 0x09 then [CHR 0x5C, CHR ''t'']
      else if cp = 0x08 then [CHR 0x5C, CHR ''b'']
      else if cp = 0x0C then [CHR 0x5C, CHR ''f'']
      else if 0x20 \<le> cp \<and> cp \<le> 0x7E then [char_of cp]
      else if 0x10000 \<le> cp then
        u_escape (0xD800 + (cp - 0x10000) div 1024) @ u_escape (0xDC00 + (cp - 0x10000) mod 1024)
      else u_escape cp)"

definition encode_string :: "string \<Rightarrow> string" where
  "encode_string s = [CHR 0x22] @ concat (map escape_code_point (utf8_decode s)) @ [CHR 0x22]"

definition newline_indent :: "nat \<Rightarrow> string" where
  "newline_indent level = CHR 0x0A # replicate (4 * level) (CHR '' '')"

fun json_dumps :: "nat \<Rightarrow> json \<Rightarrow> piece list"
  and dumps_elements :: "nat \<Rightarrow> json list \<Rightarrow> piece list"
  and dumps_members :: "nat \<Rightarrow> (string \<times> json) list \<Rightarrow> piece list"
where
  "json_dumps level JNull = [Lit ''null'']"
| "json_dumps level (JBool b) = [Lit (if b then ''true'' else ''false'')]"
| "json_dumps level (JInt i) = [Lit (int_str i)]"
| "json_dumps level (JFloat NaN) = [Lit ''NaN'']"
| "json_dumps level (JFloat (Infinity neg)) = [Lit (if neg then ''-Infinity'' else ''Infinity'')]"
| "json_dumps level (JFloat (Dec neg m e)) = [Repr (Dec neg m e)]"
| "json_dumps level (JStr s) = [Lit (encode_string s)]"
| "json_dumps level (JArr []) = [Lit ''[]'']"
| "json_dumps level (JArr (x # xs)) =
     [Lit (''['' @ newline_indent (Suc level))]
     @ dumps_elements (Suc level) (x # xs)
     @ [Lit (newline_indent level @ '']'')]"
| "json_dumps level (JObj []) = [Lit ''{}'']"
| "json_dumps level (JObj (kv # kvs)) =
     [Lit (''{'' @ newline_indent (Suc level))]
     @ dumps_members (Suc level) (kv # kvs)
     @ [Lit (newline_indent level @ ''}'')]"
| "dumps_elements level [] = []"
| "dumps_elements level [x] = json_dumps level x"
| "dumps_elements level (x # y # ys) =
     json_dumps level x @ [Lit ('','' @ newline_indent level)] @ dumps_elements level (y # ys)"
| "dumps_members level [] = []"
| "dumps_members level [(k, v)] = [Lit (encode_string k @ '': '')] @ json_dumps level v"
| "dumps_members level ((k, v) # kv # kvs) =
     [Lit (encode_string k @ '': '')] @ json_dumps level v
     @ [Lit ('','' @ newline_indent level)] @ dumps_members level (kv # kvs)"

subsection \<open>\<open>main\<close>\<close>

text \<open>
  What a run reads: the two coordinates of the command line, the two credentials of
  the environment (\<open>None\<close>: the variable is not set), and the answers of the services.
\<close>

record world =
  latitude :: string
  longitude :: string
  GOOGLE_MAPS_API_KEY :: "string option"
  GEMINI_API_KEY :: "string option"
  places_reply :: http_reply
  weather_reply :: http_reply
  gemini_setup_fails :: bool
  gemini_reply :: gen_reply

text \<open>\<open>not key\<close> for a value of \<open>os.getenv\<close>: the variable is not set, or empty.\<close>

definition unset :: "string option \<Rightarrow> bool" where
  "unset key = (case key of None \<Rightarrow> True | Some k \<Rightarrow> k = [])"

text \<open>\<open>x.replace('_', ' ').title()\<close>; only a \<open>str\<close> has the method.\<close>

definition category :: "interpreter \<Rightarrow> string \<Rightarrow> string" where
  "category py t = py_title py (py_replace t ''_'' '' '')"

text \<open>\<open>nearest_place.get('types', ['unknown'])[0].replace('_', ' ').title()\<close>\<close>

definition place_type_of :: "interpreter \<Rightarrow> json \<Rightarrow> py_exception + string" where
  "place_type_of py nearest_place =
     (case py_get nearest_place ''types'' (JArr [JStr ''unknown'']) of
        Inl e \<Rightarrow> Inl e
      | Inr types \<Rightarrow>
          (case py_getitem0 types of
             Inl e \<Rightarrow> Inl e
           | Inr (JStr t) \<Rightarrow> Inr (category py t)
           | Inr _ \<Rightarrow> Inl AttributeError))"

text \<open>\<open>{"name": place_name, "type": place_type, **ai_analysis}\<close>; only a mapping
  can be unpacked.\<close>

definition final_response :: "json \<Rightarrow> string \<Rightarrow> json \<Rightarrow> py_exception + json" where
  "final_response place_name place_type ai_analysis =
     (case ai_analysis of
        JObj kvs \<Rightarrow>
          Inr (JObj (foldl (\<lambda>d (k, v). dict_set d k v)
                       [(''name'', place_name), (''type'', JStr place_type)] kvs))
      | _ \<Rightarrow> Inl TypeError)"

definition main :: "interpreter \<Rightarrow> world \<Rightarrow> unit io" where
  "main py w =
     (if unset (GOOGLE_MAPS_API_KEY w) then
        print [Lit ''Error: GOOGLE_MAPS_API_KEY environment variable not set.'']
      else if unset (GEMINI_API_KEY w) then
        print [Lit ''Error: GEMINI_API_KEY environment variable not set.'']
      else
        bind (print [Lit ''Searching for nearest infrastructure near ('', Lit (latitude w),
                     Lit '', '', Lit (longitude w), Lit '')...'']) (\<lambda>_.
        bind (find_nearest_place (latitude w) (longitude w)
                (case GOOGLE_MAPS_API_KEY w of Some k \<Rightarrow> k | None \<Rightarrow> []) (places_reply w)) (\<lambda>nearest_place.
        if \<not> truthy nearest_place then
          print [Lit ''Could not find any nearby infrastructure. Exiting.'']
        else
          bind (lift (py_get nearest_place ''name'' (JStr ''N/A''))) (\<lambda>place_name.
          bind (lift (place_type_of py nearest_place)) (\<lambda>place_type.
          bind (print ([Lit ''Found nearest place: ''] @ py_str place_name
                       @ [Lit '' (Type: '', Lit place_type, Lit '')''])) (\<lambda>_.
          bind (print [Lit ''Fetching current climate data...'']) (\<lambda>_.
          bind (get_current_humidity (latitude w) (longitude w) (weather_reply w)) (\<lambda>measured.
          bind (if measured = JNull
                then bind (print [Lit ''Could not retrieve humidity data. Proceeding without it.'']) (\<lambda>_.
                     ret (JStr ''not available''))
                else ret measured) (\<lambda>humidity.
          bind (print [Lit ''Generating AI analysis...'']) (\<lambda>_.
          bind (generate_infrastructure_analysis py place_name place_type humidity (GEMINI_API_KEY w)
                  (gemini_setup_fails w) (gemini_reply w)) (\<lambda>ai_analysis.
          if \<not> truthy ai_analysis then
            print [Lit ''Failed to generate AI analysis. Exiting.'']
          else
            bind (lift (final_response place_name place_type ai_analysis)) (\<lambda>report.
            bind (print [Lit ''\<newline>--- Analysis Complete ---'']) (\<lambda>_.
            print (json_dumps 0 report))))))))))))))"

section \<open>Notions used by the properties\<close>

text \<open>The events that reach a remote service.\<close>

fun is_network :: "event \<Rightarrow> bool" where
  "is_network (HttpGet url params) = True"
| "is_network (GenerateContent p) = True"
| "is_network _ = False"





text \<open>
  Basic Latin in the interpreter's tables, as in every version of the Unicode Character
  Database: below 128 the cased code points are the letters, the title-case mapping
  raises a small letter, the lower-case mapping lowers a capital, and both leave every
  other code point as it is.
\<close>

definition basic_latin :: "interpreter \<Rightarrow> bool" where
  "basic_latin py =
     (\<forall>c<128.
        cased py c = (65 \<le> c \<and> c \<le> 90 \<or> 97 \<le> c \<and> c \<le> 122)
        \<and> title_of py c = [if 97 \<le> c \<and> c \<le> 122 then c - 32 else c]
        \<and> lower_of py c = [if 65 \<le> c \<and> c \<le> 90 then c + 32 else c])"

definition ascii :: "string \<Rightarrow> bool" where
  "ascii s = (\<forall>ch\<in>set s. (of_char ch :: nat) < 128)"

text \<open>
  An interpreter for the examples.  Its tables are the entries of the Unicode Character
  Database for Basic Latin, for U+01F0 (small j with caron: cased, with the title-case
  mapping capital J, U+030C) and for U+030C (combining caron: case-ignorable, not
  cased); the examples hold no other code point.  Its limits are of the order of
  CPython's defaults.
\<close>

definition example_python :: interpreter where
  "example_python =
     \<lparr>cased = (\<lambda>c. 65 \<le> c \<and> c \<le> 90 \<or> 97 \<le> c \<and> c \<le> 122 \<or> c = 0x1F0),
      case_ignorable = (\<lambda>c. c = 0x27 \<or> c = 0x2E \<or> c = 0x3A \<or> c = 0x5E \<or> c = 0x60 \<or> c = 0x30C),
      title_of = (\<lambda>c. if 97 \<le> c \<and> c \<le> 122 then [c - 32] else if c = 0x1F0 then [0x4A, 0x30C] else [c]),
      lower_of = (\<lambda>c. if 65 \<le> c \<and> c \<le> 90 then [c + 32] else [c]),
      recursion_limit = 900,
      max_str_digits = 4300\<rparr>"

text \<open>
  The title of ASCII text, which is what \<open>str.title\<close> computes on it under
  \<open>basic_latin\<close> (lemma \<open>py_title_ascii\<close>); it serves the proofs only.
\<close>

definition is_lower :: "char \<Rightarrow> bool" where
  "is_lower c = (97 \<le> (of_char c :: nat) \<and> (of_char c :: nat) \<le> 122)"

definition is_upper :: "char \<Rightarrow> bool" where
  "is_upper c = (65 \<le> (of_char c :: nat) \<and> (of_char c :: nat) \<le> 90)"

definition to_upper :: "char \<Rightarrow> char" where
  "to_upper c = (if is_lower c then char_of ((of_char c :: nat) - 32) else c)"

definition to_lower :: "char \<Rightarrow> char" where
  "to_lower c = (if is_upper c then char_of ((of_char c :: nat) + 32) else c)"

fun ascii_title :: "bool \<Rightarrow> string \<Rightarrow> string" where
  "ascii_title previous_is_cased [] = []"
| "ascii_title previous_is_cased (c # cs) =
     (if is_lower c \<or> is_upper c
      then (if previous_is_cased then to_lower c else to_upper c) # ascii_title True cs
      else c # ascii_title False cs)"

section \<open>Properties\<close>

lemmas io_defs = bind_def ret_def raise_def emit_def print_def lift_def try_except_def
  requests_get_def raise_for_status_def response_json_def

subsection \<open>Credentials\<close>

text \<open>
  C8.  If either credential is absent from the environment (not set, or empty), the
  program prints one error message and returns: the run has no other event, so no
  request is ever sent.
\<close>

theorem missing_credential_aborts:
  assumes "unset (GOOGLE_MAPS_API_KEY w) \<or> unset (GEMINI_API_KEY w)"
  shows "main py w =
           ([Print [Lit (''Error: ''
                @ (if unset (GOOGLE_MAPS_API_KEY w) then ''GOOGLE_MAPS_API_KEY'' else ''GEMINI_API_KEY'')
                @ '' environment variable not set.'')]], Inr ())
         \<and> filter is_network (fst (main py w)) = []"
  using assms by (auto simp: main_def print_def emit_def)

theorem missing_credential_aborts_witness:
  "main example_python
        \<lparr>latitude = ''35.9132'', longitude = ''-79.0558'', GOOGLE_MAPS_API_KEY = Some ''maps-key'',
         GEMINI_API_KEY = None, places_reply = NoResponse, weather_reply = NoResponse,
         gemini_setup_fails = False, gemini_reply = GenerateFails\<rparr>
     = ([Print [Lit ''Error: GEMINI_API_KEY environment variable not set.'']], Inr ())
   \<and> main example_python
        \<lparr>latitude = ''35.9132'', longitude = ''-79.0558'', GOOGLE_MAPS_API_KEY = Some [],
         GEMINI_API_KEY = Some ''gemini-key'', places_reply = NoResponse, weather_reply = NoResponse,
         gemini_setup_fails = False, gemini_reply = GenerateFails\<rparr>
     = ([Print [Lit ''Error: GOOGLE_MAPS_API_KEY environment variable not set.'']], Inr ())"
  using missing_credential_aborts [of "\<lparr>latitude = ''35.9132'', longitude = ''-79.0558'',
         GOOGLE_MAPS_API_KEY = Some ''maps-key'',
         GEMINI_API_KEY = None, places_reply = NoResponse, weather_reply = NoResponse,
         gemini_setup_fails = False, gemini_reply = GenerateFails\<rparr>" example_python]
    missing_credential_aborts [of "\<lparr>latitude = ''35.9132'', longitude = ''-79.0558'',
         GOOGLE_MAPS_API_KEY = Some [],
         GEMINI_API_KEY = Some ''gemini-key'', places_reply = NoResponse, weather_reply = NoResponse,
         gemini_setup_fails = False, gemini_reply = GenerateFails\<rparr>" example_python]
  by (simp add: unset_def)

subsection \<open>The nearest place\<close>

text \<open>
  C1.  A body that is valid JSON but not an object, under a 2xx status, is none of the
  cases in which the first result is returned, yet \<open>find_nearest_place\<close> does not
  return \<open>None\<close> for it: \<open>results.get\<close> raises \<open>AttributeError\<close>, which is not a
  \<open>RequestException\<close>, so the function raises to its caller.
\<close>

theorem body_not_an_object_raises:
  "find_nearest_place lat lon key (Response 200 (Some (JArr [])))
     = ([HttpGet ''https://maps.googleapis.com/maps/api/place/nearbysearch/json''
           [(''location'', lat @ '','' @ lon), (''rankby'', ''distance''),
            (''keyword'', ''school,park,hospital,police,fire station,power station,water treatment''),
            (''key'', key)]],
        Inl AttributeError)"
  by (simp add: find_nearest_place_def io_defs)

text \<open>
  Where the body is an object whose \<open>results\<close>, if present, is a list, the function
  returns the first element of the list when the status field is \<open>"OK"\<close> and the list
  is not empty, under every HTTP status that \<open>raise_for_status\<close> lets through (all
  but 400 to 599); otherwise it returns \<open>None\<close>, as it does for an error status, for a
  body that is not JSON and for a request that fails.
\<close>

lemma find_nearest_place_object_body:
  "(\<not> (400 \<le> code \<and> code < 600) \<and> map_of body ''status'' = Some (JStr ''OK'')
      \<and> map_of body ''results'' = Some (JArr (place # others))
    \<longrightarrow> snd (find_nearest_place lat lon key (Response code (Some (JObj body)))) = Inr place)
   \<and> (\<not> (400 \<le> code \<and> code < 600)
      \<and> (map_of body ''status'' \<noteq> Some (JStr ''OK'') \<or> map_of body ''results'' = None
           \<or> map_of body ''results'' = Some (JArr []))
    \<longrightarrow> snd (find_nearest_place lat lon key (Response code (Some (JObj body)))) = Inr JNull)
   \<and> (400 \<le> code \<and> code < 600
    \<longrightarrow> snd (find_nearest_place lat lon key (Response code decoded)) = Inr JNull)
   \<and> snd (find_nearest_place lat lon key (Response code None)) = Inr JNull
   \<and> snd (find_nearest_place lat lon key NoResponse) = Inr JNull"
  by (auto simp: find_nearest_place_def io_defs split: option.splits)

subsection \<open>The category of a place\<close>

text \<open>On ASCII text, \<open>str.title\<close> is \<open>ascii_title\<close>.\<close>

lemma utf8_decode_ascii: "ascii s \<Longrightarrow> utf8_decode s = map of_char s"
  by (induction s) (auto simp: ascii_def)

lemma char_of_of_char_nat: "char_of (of_char c :: nat) = c"
  by simp

lemma do_title_ascii:
  assumes "basic_latin py" and "ascii s"
  shows "concat (map utf8_encode (do_title py p seen (map of_char s))) = ascii_title p s"
  using assms(2)
proof (induction s arbitrary: p seen)
  case Nil
  then show ?case by simp
next
  case (Cons c s)
  let ?n = "of_char c :: nat"
  from Cons.prems have small: "?n < 128" and rest: "ascii s"
    by (simp_all add: ascii_def)
  from assms(1) small
  have tables: "cased py ?n = (65 \<le> ?n \<and> ?n \<le> 90 \<or> 97 \<le> ?n \<and> ?n \<le> 122)"
    "title_of py ?n = [if 97 \<le> ?n \<and> ?n \<le> 122 then ?n - 32 else ?n]"
    "lower_of py ?n = [if 65 \<le> ?n \<and> ?n \<le> 90 then ?n + 32 else ?n]"
    by (simp_all add: basic_latin_def)
  from small have sigma: "lower_at py seen ?n (map of_char s) = lower_of py ?n"
    by (simp add: lower_at_def)
  have tail: "concat (map utf8_encode (do_title py (cased py ?n) (seen @ [?n]) (map of_char s)))
                = ascii_title (cased py ?n) s"
    by (rule Cons.IH [OF rest])
  have cased: "cased py ?n = (is_lower c \<or> is_upper c)"
    by (auto simp: tables is_lower_def is_upper_def)
  have upper: "concat (map utf8_encode (title_of py ?n)) = [to_upper c]"
    using small by (auto simp: tables utf8_encode_def to_upper_def is_lower_def)
  have lower: "concat (map utf8_encode (lower_of py ?n)) = [to_lower c]"
    using small by (auto simp: tables utf8_encode_def to_lower_def is_upper_def)
  have same: "\<not> (is_lower c \<or> is_upper c) \<Longrightarrow> to_upper c = c \<and> to_lower c = c"
    by (simp add: to_upper_def to_lower_def)
  show ?case
    using tail upper lower same
    by (cases p) (auto simp: sigma cased)
qed

lemma py_title_ascii: "basic_latin py \<Longrightarrow> ascii s \<Longrightarrow> py_title py s = ascii_title False s"
  by (simp add: py_title_def utf8_decode_ascii do_title_ascii)

lemma replace_scan_single:
  "replace_scan [a] new s = concat (map (\<lambda>c. if c = a then new else [c]) s)"
  by (induction s) auto

lemma replace_absent: "a \<notin> set s \<Longrightarrow> replace_scan [a] new s = s"
  by (induction s) auto

lemma ascii_replace: "ascii s \<Longrightarrow> ascii (py_replace s ''_'' '' '')"
  by (auto simp: ascii_def py_replace_def replace_scan_single split: if_splits)

lemma cased_to_upper: "is_lower c \<or> is_upper c \<Longrightarrow> is_upper (to_upper c) \<and> \<not> is_lower (to_upper c)"
  by (auto simp: is_lower_def is_upper_def to_upper_def)

lemma cased_to_lower: "is_lower c \<or> is_upper c \<Longrightarrow> is_lower (to_lower c) \<and> \<not> is_upper (to_lower c)"
  by (auto simp: is_lower_def is_upper_def to_lower_def)

lemma ascii_title_idem: "ascii_title p (ascii_title p s) = ascii_title p s"
proof (induction s arbitrary: p)
  case Nil
  then show ?case by simp
next
  case (Cons c s)
  show ?case
  proof (cases "is_lower c \<or> is_upper c")
    case True
    from cased_to_upper [OF True] cased_to_lower [OF True]
    have "to_upper (to_upper c) = to_upper c" "to_lower (to_lower c) = to_lower c"
      by (simp_all add: to_upper_def to_lower_def)
    with True cased_to_upper [OF True] cased_to_lower [OF True] Cons.IH [of True]
    show ?thesis by auto
  next
    case False
    with Cons.IH [of False] show ?thesis by simp
  qed
qed

lemma ascii_title_keeps:
  "ascii s \<Longrightarrow> CHR ''_'' \<notin> set s
     \<Longrightarrow> ascii (ascii_title p s) \<and> CHR ''_'' \<notin> set (ascii_title p s)"
proof (induction s arbitrary: p)
  case Nil
  then show ?case by simp
next
  case (Cons c s)
  have "is_lower c \<or> is_upper c
          \<Longrightarrow> to_upper c \<noteq> CHR ''_'' \<and> to_lower c \<noteq> CHR ''_''
              \<and> (of_char (to_upper c) :: nat) < 128 \<and> (of_char (to_lower c) :: nat) < 128"
    using cased_to_upper [of c] cased_to_lower [of c]
    by (auto simp: is_lower_def is_upper_def)
  moreover from Cons.prems have "ascii s" "CHR ''_'' \<notin> set s" "(of_char c :: nat) < 128" "c \<noteq> CHR ''_''"
    by (auto simp: ascii_def)
  ultimately show ?case
    using Cons.IH [of True] Cons.IH [of False] by (auto simp: ascii_def)
qed

lemma category_ascii:
  assumes "basic_latin py" and "ascii s"
  shows "category py s = ascii_title False (py_replace s ''_'' '' '')"
  using assms by (simp add: category_def py_title_ascii ascii_replace)

text \<open>
  Beyond ASCII the derivation is not idempotent.  The title-case mapping of U+01F0
  (small j with caron) is a capital J and a combining caron; the caron is not cased,
  so in the result the letter after it starts a word, and a second pass raises it.
\<close>

theorem category_not_idempotent:
  "category example_python [CHR 0xC7, CHR 0xB0, CHR ''a''] = [CHR ''J'', CHR 0xCC, CHR 0x8C, CHR ''a'']
   \<and> category example_python (category example_python [CHR 0xC7, CHR 0xB0, CHR ''a''])
       = [CHR ''J'', CHR 0xCC, CHR 0x8C, CHR ''A'']
   \<and> category example_python (category example_python [CHR 0xC7, CHR 0xB0, CHR ''a''])
       \<noteq> category example_python [CHR 0xC7, CHR 0xB0, CHR ''a'']"
proof -
  have a: "category example_python [CHR 0xC7, CHR 0xB0, CHR ''a''] = [CHR ''J'', CHR 0xCC, CHR 0x8C, CHR ''a'']"
    by code_simp
  have b: "category example_python [CHR ''J'', CHR 0xCC, CHR 0x8C, CHR ''a''] = [CHR ''J'', CHR 0xCC, CHR 0x8C, CHR ''A'']"
    by code_simp
  from a b show ?thesis by simp
qed

text \<open>
  C9 (as amended).  On ASCII type names, the derivation of the category (underscores
  to spaces, then title case) is idempotent, and it maps both "Power Station" and
  "power_station" to "Power Station".
\<close>

theorem category_idempotent_ascii:
  assumes "basic_latin py" and "ascii s"
  shows "category py (category py s) = category py s
         \<and> category py ''Power Station'' = ''Power Station''
         \<and> category py ''power_station'' = ''Power Station''"
proof -
  let ?r = "py_replace s ''_'' '' ''"
  have clean: "ascii ?r" "CHR ''_'' \<notin> set ?r"
    using ascii_replace [OF assms(2)]
    by (auto simp: py_replace_def replace_scan_single split: if_splits)
  have c: "category py s = ascii_title False ?r"
    by (rule category_ascii [OF assms])
  from ascii_title_keeps [OF clean]
  have kept: "ascii (ascii_title False ?r)" "CHR ''_'' \<notin> set (ascii_title False ?r)"
    by simp_all
  from kept(2) have "py_replace (ascii_title False ?r) ''_'' '' '' = ascii_title False ?r"
    by (simp add: py_replace_def replace_absent)
  with category_ascii [OF assms(1) kept(1)]
  have "category py (ascii_title False ?r) = ascii_title False (ascii_title False ?r)"
    by simp
  then have idem: "category py (category py s) = category py s"
    by (simp add: c ascii_title_idem)
  have "ascii ''Power Station''" "ascii ''power_station''"
    by (simp_all add: ascii_def)
  then have "category py ''Power Station'' = ascii_title False (py_replace ''Power Station'' ''_'' '' '')"
    "category py ''power_station'' = ascii_title False (py_replace ''power_station'' ''_'' '' '')"
    by (simp_all only: category_ascii [OF assms(1)])
  moreover have "ascii_title False (py_replace ''Power Station'' ''_'' '' '') = ''Power Station''"
    by code_simp
  moreover have "ascii_title False (py_replace ''power_station'' ''_'' '' '') = ''Power Station''"
    by code_simp
  ultimately show ?thesis using idem by simp
qed

lemma basic_latin_example: "basic_latin example_python"
  by (auto simp: basic_latin_def example_python_def)

theorem category_idempotent_ascii_witness:
  "category example_python (category example_python ''water_treatment_plant'')
     = category example_python ''water_treatment_plant''
   \<and> category example_python ''Power Station'' = ''Power Station''
   \<and> category example_python ''power_station'' = ''Power Station''"
proof -
  have "ascii ''water_treatment_plant''"
    by (simp add: ascii_def)
  from category_idempotent_ascii [OF basic_latin_example this] show ?thesis .
qed

lemma category_unknown: "basic_latin py \<Longrightarrow> category py ''unknown'' = ''Unknown''"
proof -
  assume "basic_latin py"
  moreover have "ascii ''unknown''"
    by (simp add: ascii_def)
  ultimately have "category py ''unknown'' = ascii_title False (py_replace ''unknown'' ''_'' '' '')"
    by (rule category_ascii)
  also have "\<dots> = ''Unknown''"
    by code_simp
  finally show ?thesis .
qed

text \<open>
  C2.  The default \<open>['unknown']\<close> stands in for a missing \<open>types\<close> key only.  For a
  place whose category list is empty the subscript \<open>[0]\<close> raises \<open>IndexError\<close>: the
  derivation fails, and "Unknown" is not derived.
\<close>

theorem place_type_of_empty_types:
  "place_type_of py (JObj [(''name'', JStr ''Jordan Lake Plant''), (''types'', JArr [])]) = Inl IndexError"
  by (simp add: place_type_of_def)

text \<open>
  Where the list starts with a \<open>str\<close>, the category is that element with underscores
  replaced by spaces, in title case; where the place has no \<open>types\<close> key, it is
  "Unknown".
\<close>

lemma place_type_of_derivation:
  "(map_of place ''types'' = Some (JArr (JStr t # ts))
      \<longrightarrow> place_type_of py (JObj place) = Inr (py_title py (py_replace t ''_'' '' '')))
   \<and> (basic_latin py \<and> map_of place ''types'' = None \<longrightarrow> place_type_of py (JObj place) = Inr ''Unknown'')"
  using category_unknown [of py] by (auto simp: place_type_of_def category_def)

subsection \<open>Failures of the generative call\<close>

text \<open>
  C3.  When \<open>generate_content\<close> itself raises, the handler prints the error and then
  reads \<open>response.text\<close> of a response that was never bound: the function does not
  return \<open>None\<close>, it raises \<open>UnboundLocalError\<close> to its caller.
\<close>

theorem generate_failure_raises:
  "generate_infrastructure_analysis py place_name place_type humidity (Some (k # ks)) False GenerateFails
     = ([Configure (k # ks),
         GenerateContent (prompt place_name place_type humidity),
         Print [Lit ''An error occurred during Gemini API call: '', Exc ServiceError]],
        Inl UnboundLocalError)"
  by (simp add: generate_infrastructure_analysis_def io_defs)

subsection \<open>The humidity\<close>

text \<open>
  C4.  A body in which \<open>current\<close> is not an object has no path
  \<open>current.relative_humidity_2m\<close>, yet \<open>get_current_humidity\<close> does not return
  \<open>None\<close> for it: the subscript raises \<open>TypeError\<close>, which neither \<open>except\<close> clause
  names.
\<close>

theorem humidity_not_an_object_raises:
  "get_current_humidity lat lon (Response 200 (Some (JObj [(''current'', JNull)])))
     = ([HttpGet (''https://api.open-meteo.com/v1/forecast?latitude='' @ lat
                  @ ''&longitude='' @ lon @ ''&current=relative_humidity_2m'') []],
        Inl TypeError)"
  by (simp add: get_current_humidity_def io_defs)

text \<open>
  Where every step of the path is an object, the function does what its documentation
  says: the value at the path, and \<open>None\<close> for a missing key and for a failed request.
\<close>

lemma get_current_humidity_result:
  "(\<not> (400 \<le> code \<and> code < 600) \<and> map_of body ''current'' = Some (JObj current)
      \<and> map_of current ''relative_humidity_2m'' = Some v
    \<longrightarrow> snd (get_current_humidity lat lon (Response code (Some (JObj body)))) = Inr v)
   \<and> (\<not> (400 \<le> code \<and> code < 600) \<and> map_of body ''current'' = None
    \<longrightarrow> snd (get_current_humidity lat lon (Response code (Some (JObj body)))) = Inr JNull)
   \<and> (\<not> (400 \<le> code \<and> code < 600) \<and> map_of body ''current'' = Some (JObj current)
      \<and> map_of current ''relative_humidity_2m'' = None
    \<longrightarrow> snd (get_current_humidity lat lon (Response code (Some (JObj body)))) = Inr JNull)
   \<and> (400 \<le> code \<and> code < 600
    \<longrightarrow> snd (get_current_humidity lat lon (Response code decoded)) = Inr JNull)
   \<and> snd (get_current_humidity lat lon (Response code None)) = Inr JNull
   \<and> snd (get_current_humidity lat lon NoResponse) = Inr JNull"
  by (auto simp: get_current_humidity_def io_defs split: option.splits)


subsection \<open>Falsy results\<close>



subsection \<open>A missing humidity\<close>





end
